theory Spec2Isabelle
  imports Main "HOL-Library.Word" "HOL-Library.Monad_Syntax"
begin

unbundle bit_operations_syntax

section \<open>The machine of src/app.cpp\<close>

text \<open>
  The program is a skeleton NES emulator: a 6502 register file (\<open>CPU6502\<close>), a flat
  64KB byte array (\<open>Memory\<close>) and a driver (\<open>NesticleClone\<close>) whose
  \<open>emulate_cycle\<close> fetches one opcode and dispatches it. C++ \<open>uint8_t\<close> and
  \<open>uint16_t\<close> are words of that width, so \<open>+\<close> wraps as the C++ does.
\<close>

type_synonym uint8_t = "8 word"
type_synonym uint16_t = "16 word"

subsection \<open>struct CPU6502\<close>

record CPU6502 =
  A :: uint8_t
  X :: uint8_t
  Y :: uint8_t
  SP :: uint8_t
  PC :: uint16_t
  status :: uint8_t

text \<open>\<open>CPU6502::reset\<close>: six assignments of constants; no argument, no memory access.\<close>

definition reset :: "CPU6502 \<Rightarrow> CPU6502" where
  "reset c = c\<lparr>A := 0, X := 0, Y := 0, SP := 0xFD, PC := 0x8000, status := 0x24\<rparr>"

text \<open>
  \<open>CPU6502::update_zero_and_negative_flags\<close>: two independent \<open>if\<close>s, the first on
  \<open>value == 0\<close>, the second on \<open>value & 0x80\<close>. \<open>status &= ~0x02\<close> is computed
  in \<open>int\<close> and truncated back to eight bits, which is \<open>AND NOT\<close> on the byte.
\<close>

definition update_zero_and_negative_flags :: "uint8_t \<Rightarrow> CPU6502 \<Rightarrow> CPU6502" where
  "update_zero_and_negative_flags val c =
     (let c1 = (if val = 0 then c\<lparr>status := status c OR 0x02\<rparr>
                else c\<lparr>status := status c AND NOT 0x02\<rparr>)
      in if val AND 0x80 \<noteq> 0 then c1\<lparr>status := status c1 OR 0x80\<rparr>
         else c1\<lparr>status := status c1 AND NOT 0x80\<rparr>)"

subsection \<open>class Memory\<close>

text \<open>
  \<open>ram\<close> is a \<open>std::vector<uint8_t>\<close>; the constructor gives it \<open>0x10000\<close> zero
  bytes. \<open>operator[]\<close> does no bounds check: an index at or beyond the vector's size
  is undefined behaviour, which the model makes the value \<open>None\<close>.
\<close>

record Memory =
  ram :: "uint8_t list"

definition Memory_new :: Memory where
  "Memory_new = \<lparr>ram = replicate 0x10000 0\<rparr>"

definition read :: "Memory \<Rightarrow> uint16_t \<Rightarrow> uint8_t option" where
  "read m address =
     (if unat address < length (ram m) then Some (ram m ! unat address) else None)"

text \<open>\<open>Memory::write\<close> (\<open>write\<close> alone is a keyword of the proof language).\<close>

definition write_mem :: "Memory \<Rightarrow> uint16_t \<Rightarrow> uint8_t \<Rightarrow> Memory option" where
  "write_mem m address val =
     (if unat address < length (ram m)
      then Some (m\<lparr>ram := (ram m)[unat address := val]\<rparr>) else None)"

subsection \<open>CPU6502::execute_opcode\<close>

text \<open>
  The \<open>default\<close> branch prints \<open>"Unknown opcode: "\<close>, then the opcode through
  \<open>std::hex\<close> as an \<open>int\<close> (lower-case digits, no prefix, no padding), then
  \<open>std::endl\<close>. \<open>to_hex\<close> is that rendering for the values a byte can take.
\<close>

definition hex_digit :: "nat \<Rightarrow> char" where
  "hex_digit n = ''0123456789abcdef'' ! (n mod 16)"

definition to_hex :: "nat \<Rightarrow> string" where
  "to_hex n = (if n < 16 then [hex_digit n] else [hex_digit (n div 16), hex_digit n])"

text \<open>
  The method works on the register file and is handed the memory by reference; it calls
  only \<open>memory.read\<close>, so the memory is an input here and not part of the result.
  The result is the new register file and the lines the call wrote to \<open>std::cerr\<close>.
  In \<open>A = memory.read(PC++)\<close> the read is at the old \<open>PC\<close>.
\<close>

definition execute_opcode ::
  "uint8_t \<Rightarrow> Memory \<Rightarrow> CPU6502 \<Rightarrow> (CPU6502 \<times> string list) option" where
  "execute_opcode opcode mem c =
     (if opcode = 0xA9 then
        (case read mem (PC c) of
           None \<Rightarrow> None
         | Some b \<Rightarrow> Some (update_zero_and_negative_flags b (c\<lparr>A := b, PC := PC c + 1\<rparr>), []))
      else if opcode = 0xAA then
        Some (update_zero_and_negative_flags (A c) (c\<lparr>X := A c\<rparr>), [])
      else if opcode = 0xE8 then
        Some (update_zero_and_negative_flags (X c + 1) (c\<lparr>X := X c + 1\<rparr>), [])
      else
        Some (c, [''Unknown opcode: '' @ to_hex (unat opcode)]))"

subsection \<open>class NesticleClone\<close>

text \<open>
  The emulator object holds the register file, the memory and the \<open>running\<close> flag
  (the SDL window, renderer and the field-less \<open>PPU\<close> play no part in the CPU core).
  \<open>cerr\<close> is the text written so far to the process's \<open>std::cerr\<close>, one entry per
  line.
\<close>

record NesticleClone =
  cpu :: CPU6502
  memory :: Memory
  running :: bool
  cerr :: "string list"

text \<open>
  \<open>NesticleClone::emulate_cycle\<close>, declared \<open>void\<close>: read the opcode at \<open>PC\<close>,
  increment \<open>PC\<close>, dispatch. Its whole result is the updated emulator.
\<close>

definition emulate_cycle :: "NesticleClone \<Rightarrow> NesticleClone option" where
  "emulate_cycle s =
     (case read (memory s) (PC (cpu s)) of
        None \<Rightarrow> None
      | Some opcode \<Rightarrow>
          (case execute_opcode opcode (memory s) ((cpu s)\<lparr>PC := PC (cpu s) + 1\<rparr>) of
             None \<Rightarrow> None
           | Some (c', out) \<Rightarrow> Some (s\<lparr>cpu := c', cerr := cerr s @ out\<rparr>)))"

text \<open>
  The constructor sets \<open>running\<close> and builds the memory; the registers are left as
  they happen to be, which is the parameter \<open>c\<close>.
\<close>

definition NesticleClone_new :: "CPU6502 \<Rightarrow> NesticleClone" where
  "NesticleClone_new c = \<lparr>cpu = c, memory = Memory_new, running = True, cerr = []\<rparr>"

text \<open>\<open>NesticleClone::init\<close> on the path where the three SDL calls succeed.\<close>

definition init :: "NesticleClone \<Rightarrow> NesticleClone" where
  "init s = s\<lparr>cpu := reset (cpu s)\<rparr>"

text \<open>
  \<open>NesticleClone::load_rom\<close>. What the file system answers is the parameter
  \<open>file\<close>:
  \<^item> \<open>Cannot_open\<close>: the stream is not good after construction; the method prints a
    line and returns.
  \<^item> \<open>No_size\<close>: the file opens but \<open>seekg\<close>/\<open>tellg\<close> fails (a directory, a
    stream that cannot seek). \<open>tellg\<close> then yields \<open>-1\<close>, \<open>rom_size\<close> is the largest
    \<open>size_t\<close>, and the constructor of \<open>buffer\<close> throws; nothing catches the
    exception, in \<open>load_rom\<close> or in \<open>main\<close>, so the call does not return: \<open>None\<close>.
  \<^item> \<open>Contents buffer\<close>: the bytes read. The loop writes \<open>buffer[i]\<close> to
    \<open>0x8000 + i\<close>; the sum is a \<open>size_t\<close> and is cut to sixteen bits at the call.
\<close>

datatype rom_file = Cannot_open | No_size | Contents "uint8_t list"

fun load_rom_loop :: "nat \<Rightarrow> uint8_t list \<Rightarrow> Memory \<Rightarrow> Memory option" where
  "load_rom_loop i [] m = Some m"
| "load_rom_loop i (b # buffer) m =
     (case write_mem m (word_of_nat (0x8000 + i)) b of
        None \<Rightarrow> None
      | Some m' \<Rightarrow> load_rom_loop (Suc i) buffer m')"

definition load_rom ::
  "string \<Rightarrow> rom_file \<Rightarrow> NesticleClone \<Rightarrow> NesticleClone option" where
  "load_rom filename file s =
     (case file of
        Cannot_open \<Rightarrow>
          Some (s\<lparr>cerr := cerr s @ [''Failed to open ROM file: '' @ filename]\<rparr>)
      | No_size \<Rightarrow> None
      | Contents buffer \<Rightarrow>
          (case load_rom_loop 0 buffer (memory s) of
             None \<Rightarrow> None
           | Some m \<Rightarrow> Some (s\<lparr>memory := m\<rparr>)))"

text \<open>
  The loop of \<open>NesticleClone::run\<close> calls \<open>emulate_cycle\<close> once per iteration;
  \<open>handle_input\<close> and \<open>render_frame\<close> touch neither registers nor memory.
  \<open>emulate_cycles n\<close> is the effect of \<open>n\<close> iterations on the emulator.
\<close>

fun emulate_cycles :: "nat \<Rightarrow> NesticleClone \<Rightarrow> NesticleClone option" where
  "emulate_cycles 0 s = Some s"
| "emulate_cycles (Suc n) s =
     (case emulate_cycle s of None \<Rightarrow> None | Some s' \<Rightarrow> emulate_cycles n s')"

text \<open>
  What \<open>main\<close> does before it enters \<open>run\<close>: construct, \<open>init\<close>,
  \<open>load_rom\<close> of a regular file that opens and is read in full, here named
  \<open>rom.nes\<close>.
\<close>

definition startup :: "CPU6502 \<Rightarrow> uint8_t list \<Rightarrow> NesticleClone option" where
  "startup c buffer = load_rom ''rom.nes'' (Contents buffer) (init (NesticleClone_new c))"

subsection \<open>The reset vector of the specification\<close>

text \<open>
  The specification speaks of a vector: a fixed memory location holding the address to
  jump to, two bytes with the low byte first. \<open>spec_vector_at m va\<close> is the address so
  stored at \<open>va\<close> and \<open>va + 1\<close>; on the 6502 the reset vector is at \<open>0xFFFC\<close>.
  Nothing in src/app.cpp computes it; it is here to be compared with \<open>reset\<close>.
\<close>

definition spec_vector_at :: "Memory \<Rightarrow> uint16_t \<Rightarrow> uint16_t option" where
  "spec_vector_at m va =
     (case read m va of
        None \<Rightarrow> None
      | Some lo \<Rightarrow>
          (case read m (va + 1) of
             None \<Rightarrow> None
           | Some hi \<Rightarrow> Some (push_bit 8 (ucast hi) OR ucast lo)))"

section \<open>Facts shared by the claims\<close>

subsection \<open>The flag update\<close>

lemma mask80_zero_iff: "(v AND 0x80 = 0) = (\<not> bit (v :: uint8_t) 7)"
  using and_exp_eq_0_iff_not_bit [of v 7] by simp

lemma flags_zero_bit:
  "bit (status (update_zero_and_negative_flags v c)) 1 = (v = 0)"
  by (simp add: update_zero_and_negative_flags_def Let_def bit_or_iff bit_and_iff bit_not_iff)

lemma flags_negative_bit:
  "bit (status (update_zero_and_negative_flags v c)) 7 = bit v 7"
  by (simp add: update_zero_and_negative_flags_def Let_def bit_or_iff bit_and_iff bit_not_iff
      mask80_zero_iff)

lemma flags_other_bits:
  "status (update_zero_and_negative_flags v c) AND 0x7D = status c AND 0x7D"
  by (simp add: update_zero_and_negative_flags_def Let_def bit.conj_disj_distrib2 and.assoc)

lemma flags_bit5:
  "status (update_zero_and_negative_flags v c) AND 0x20 = status c AND 0x20"
  by (simp add: update_zero_and_negative_flags_def Let_def bit.conj_disj_distrib2 and.assoc)

lemma flags_bit2:
  "status (update_zero_and_negative_flags v c) AND 0x04 = status c AND 0x04"
  by (simp add: update_zero_and_negative_flags_def Let_def bit.conj_disj_distrib2 and.assoc)

lemma flags_keep_registers:
  "A (update_zero_and_negative_flags v c) = A c"
  "X (update_zero_and_negative_flags v c) = X c"
  "Y (update_zero_and_negative_flags v c) = Y c"
  "SP (update_zero_and_negative_flags v c) = SP c"
  "PC (update_zero_and_negative_flags v c) = PC c"
  by (simp_all add: update_zero_and_negative_flags_def Let_def)

lemmas flags_zero_bit_Suc = flags_zero_bit [unfolded One_nat_def]

subsection \<open>Memory of the constructor's size\<close>

lemma unat_u16_bound: "unat (a :: uint16_t) < 65536"
  using unsigned_less [of a, where 'a = nat] by simp

lemma read_in_range:
  "length (ram m) = 0x10000 \<Longrightarrow> read m a = Some (ram m ! unat a)"
  by (simp add: read_def unat_u16_bound)

lemma write_mem_in_range:
  "length (ram m) = 0x10000 \<Longrightarrow>
   write_mem m a v = Some (m\<lparr>ram := (ram m)[unat a := v]\<rparr>)"
  by (simp add: write_mem_def unat_u16_bound)

lemma read_after_write_mem:
  assumes "length (ram m) = 0x10000" and "write_mem m a v = Some m'"
  shows "read m' b = (if b = a then Some v else read m b)"
proof -
  from assms have m': "m' = m\<lparr>ram := (ram m)[unat a := v]\<rparr>"
    by (simp add: write_mem_in_range)
  have "unat a < length (ram m)" "unat b < length (ram m)"
    using assms(1) by (simp_all add: unat_u16_bound)
  then show ?thesis
    by (simp add: m' read_def nth_list_update word_unat_eq_iff)
qed

text \<open>The loader never leaves the array, and \<open>main\<close> reaches \<open>run\<close> with a reset CPU.\<close>

lemma load_rom_loop_total:
  "length (ram m) = 0x10000 \<Longrightarrow>
   \<exists>m'. load_rom_loop i buffer m = Some m' \<and> length (ram m') = 0x10000"
proof (induction buffer arbitrary: i m)
  case Nil
  then show ?case by simp
next
  case (Cons b buffer)
  let ?m1 = "m\<lparr>ram := (ram m)[unat (word_of_nat (0x8000 + i) :: uint16_t) := b]\<rparr>"
  have "write_mem m (word_of_nat (0x8000 + i)) b = Some ?m1"
    using Cons.prems by (rule write_mem_in_range)
  moreover have "length (ram ?m1) = 0x10000"
    using Cons.prems by simp
  ultimately show ?case
    using Cons.IH [of ?m1 "Suc i"] by simp
qed

lemma startup_total:
  "\<exists>s. startup c buffer = Some s \<and> cpu s = reset c \<and> length (ram (memory s)) = 0x10000
       \<and> running s \<and> cerr s = []"
proof -
  obtain m' where "load_rom_loop 0 buffer Memory_new = Some m'" "length (ram m') = 0x10000"
    using load_rom_loop_total [of Memory_new 0 buffer] by (auto simp: Memory_new_def)
  then show ?thesis
    by (simp add: startup_def load_rom_def init_def NesticleClone_new_def)
qed

subsection \<open>One dispatch, one step\<close>

lemma execute_opcode_total:
  "length (ram mem) = 0x10000 \<Longrightarrow> \<exists>c' out. execute_opcode opcode mem c = Some (c', out)"
  by (simp add: execute_opcode_def read_in_range)

lemma execute_opcode_keeps:
  assumes "execute_opcode opcode mem c = Some (c', out)"
  shows "SP c' = SP c" and "Y c' = Y c"
    and "status c' AND 0x20 = status c AND 0x20"
    and "status c' AND 0x04 = status c AND 0x04"
    and "PC c' = PC c + (if opcode = 0xA9 then 1 else 0)"
  using assms
  by (auto simp: execute_opcode_def flags_keep_registers flags_bit5 flags_bit2
      split: if_splits option.splits)

lemma emulate_cycle_step:
  assumes "length (ram (memory s)) = 0x10000"
  shows "\<exists>opcode c' out.
           read (memory s) (PC (cpu s)) = Some opcode
           \<and> execute_opcode opcode (memory s) ((cpu s)\<lparr>PC := PC (cpu s) + 1\<rparr>) = Some (c', out)
           \<and> emulate_cycle s = Some (s\<lparr>cpu := c', cerr := cerr s @ out\<rparr>)"
proof -
  have r: "read (memory s) (PC (cpu s)) = Some (ram (memory s) ! unat (PC (cpu s)))"
    using assms by (rule read_in_range)
  obtain c' out where
    "execute_opcode (ram (memory s) ! unat (PC (cpu s))) (memory s)
       ((cpu s)\<lparr>PC := PC (cpu s) + 1\<rparr>) = Some (c', out)"
    using execute_opcode_total [OF assms] by blast
  with r show ?thesis
    by (simp add: emulate_cycle_def)
qed

lemma emulate_cycle_keeps:
  assumes "emulate_cycle s = Some s'"
  shows "memory s' = memory s" and "running s' = running s"
    and "SP (cpu s') = SP (cpu s)" and "Y (cpu s') = Y (cpu s)"
    and "status (cpu s') AND 0x20 = status (cpu s) AND 0x20"
    and "status (cpu s') AND 0x04 = status (cpu s) AND 0x04"
proof -
  from assms obtain opcode c' out where
    e: "execute_opcode opcode (memory s) ((cpu s)\<lparr>PC := PC (cpu s) + 1\<rparr>) = Some (c', out)"
    and s': "s' = s\<lparr>cpu := c', cerr := cerr s @ out\<rparr>"
    by (auto simp: emulate_cycle_def split: option.splits)
  show "memory s' = memory s" "running s' = running s"
    by (simp_all add: s')
  show "SP (cpu s') = SP (cpu s)" "Y (cpu s') = Y (cpu s)"
    "status (cpu s') AND 0x20 = status (cpu s) AND 0x20"
    "status (cpu s') AND 0x04 = status (cpu s) AND 0x04"
    using execute_opcode_keeps [OF e] by (simp_all add: s')
qed

lemma emulate_cycles_keeps:
  "emulate_cycles n s = Some s' \<Longrightarrow>
   memory s' = memory s \<and> running s' = running s \<and> SP (cpu s') = SP (cpu s)
   \<and> Y (cpu s') = Y (cpu s)
   \<and> status (cpu s') AND 0x20 = status (cpu s) AND 0x20
   \<and> status (cpu s') AND 0x04 = status (cpu s) AND 0x04"
proof (induction n arbitrary: s)
  case 0
  then show ?case by simp
next
  case (Suc n)
  from Suc.prems obtain s1 where
    one: "emulate_cycle s = Some s1" and rest: "emulate_cycles n s1 = Some s'"
    by (auto split: option.splits)
  from Suc.IH [OF rest] emulate_cycle_keeps [OF one] show ?case
    by simp
qed

lemma emulate_cycles_total:
  "length (ram (memory s)) = 0x10000 \<Longrightarrow> \<exists>s'. emulate_cycles n s = Some s'"
proof (induction n arbitrary: s)
  case 0
  then show ?case by simp
next
  case (Suc n)
  obtain s1 where one: "emulate_cycle s = Some s1"
    using emulate_cycle_step [OF Suc.prems] by blast
  then have "length (ram (memory s1)) = 0x10000"
    using Suc.prems emulate_cycle_keeps(1) [OF one] by simp
  from Suc.IH [OF this] one show ?case
    by simp
qed

subsection \<open>Running on concrete machines\<close>

text \<open>
  Unfolding \<open>emulate_cycles\<close> at a numeral one step at a time, and the definitions a
  concrete run passes through.
\<close>

lemma emulate_cycles_numeral:
  "emulate_cycles (numeral k) s =
     (case emulate_cycle s of None \<Rightarrow> None | Some s' \<Rightarrow> emulate_cycles (pred_numeral k) s')"
  by (simp add: numeral_eq_Suc)

lemma emulate_cycles_1:
  "emulate_cycles 1 s = emulate_cycle s"
  by (simp split: option.splits)

lemmas run_defs = emulate_cycles_numeral emulate_cycles_1 emulate_cycle_def read_def
  execute_opcode_def update_zero_and_negative_flags_def reset_def

lemmas startup_defs = startup_def load_rom_def init_def NesticleClone_new_def Memory_new_def
  write_mem_def

section \<open>Zero and negative flags\<close>

text \<open>
  Claim C1. Whatever byte \<open>v\<close> the flag update is given, afterwards status bit 1 (zero)
  is set exactly when \<open>v = 0\<close>, status bit 7 (negative) equals bit 7 of \<open>v\<close>, and
  the six other status bits (mask \<open>0x7D\<close>) are as before. The three implemented
  instructions apply it to the byte they produce: LDA immediate (\<open>0xA9\<close>) to the
  byte \<open>b\<close> read at \<open>PC\<close>, which becomes \<open>A\<close>; TAX (\<open>0xAA\<close>) to the new
  \<open>X\<close>, which is \<open>A\<close>; INX (\<open>0xE8\<close>) to the new \<open>X\<close>, which is the old one
  plus one.
\<close>

theorem zero_negative_flags_track_value:
  assumes "read mem (PC c) = Some b"
  shows "(bit (status (update_zero_and_negative_flags v c)) 1 = (v = 0)
          \<and> bit (status (update_zero_and_negative_flags v c)) 7 = bit v 7
          \<and> status (update_zero_and_negative_flags v c) AND 0x7D = status c AND 0x7D)
       \<and> (\<exists>c'. execute_opcode 0xA9 mem c = Some (c', []) \<and> A c' = b
              \<and> bit (status c') 1 = (b = 0) \<and> bit (status c') 7 = bit b 7
              \<and> status c' AND 0x7D = status c AND 0x7D)
       \<and> (\<exists>c'. execute_opcode 0xAA mem c = Some (c', []) \<and> X c' = A c
              \<and> bit (status c') 1 = (A c = 0) \<and> bit (status c') 7 = bit (A c) 7
              \<and> status c' AND 0x7D = status c AND 0x7D)
       \<and> (\<exists>c'. execute_opcode 0xE8 mem c = Some (c', []) \<and> X c' = X c + 1
              \<and> bit (status c') 1 = (X c + 1 = 0) \<and> bit (status c') 7 = bit (X c + 1) 7
              \<and> status c' AND 0x7D = status c AND 0x7D)"
proof (intro conjI)
  show "\<exists>c'. execute_opcode 0xA9 mem c = Some (c', []) \<and> A c' = b
              \<and> bit (status c') 1 = (b = 0) \<and> bit (status c') 7 = bit b 7
              \<and> status c' AND 0x7D = status c AND 0x7D"
    using assms
    by (simp add: execute_opcode_def flags_zero_bit_Suc flags_negative_bit flags_other_bits
        flags_keep_registers)
  show "\<exists>c'. execute_opcode 0xAA mem c = Some (c', []) \<and> X c' = A c
              \<and> bit (status c') 1 = (A c = 0) \<and> bit (status c') 7 = bit (A c) 7
              \<and> status c' AND 0x7D = status c AND 0x7D"
    by (simp add: execute_opcode_def flags_zero_bit_Suc flags_negative_bit flags_other_bits
        flags_keep_registers)
  show "\<exists>c'. execute_opcode 0xE8 mem c = Some (c', []) \<and> X c' = X c + 1
              \<and> bit (status c') 1 = (X c + 1 = 0) \<and> bit (status c') 7 = bit (X c + 1) 7
              \<and> status c' AND 0x7D = status c AND 0x7D"
    by (simp add: execute_opcode_def flags_zero_bit_Suc flags_negative_bit flags_other_bits
        flags_keep_registers)
qed (simp_all add: flags_zero_bit_Suc flags_negative_bit flags_other_bits)

text \<open>
  The theorem at a memory holding \<open>0x80\<close> at \<open>0x8001\<close> and registers with
  \<open>A = 0\<close>, \<open>X = 0x7F\<close>, \<open>PC = 0x8001\<close> and the zero flag set beforehand.
\<close>

theorem zero_negative_flags_track_value_witness:
  "read \<lparr>ram = (replicate 0x10000 0)[0x8001 := 0x80]\<rparr> 0x8001 = Some 0x80
   \<and> (\<exists>c'. execute_opcode 0xA9 \<lparr>ram = (replicate 0x10000 0)[0x8001 := 0x80]\<rparr>
              \<lparr>A = 0, X = 0x7F, Y = 0, SP = 0xFD, PC = 0x8001, status = 0x26\<rparr> = Some (c', [])
          \<and> A c' = 0x80 \<and> \<not> bit (status c') 1 \<and> bit (status c') 7
          \<and> status c' AND 0x7D = 0x24)
   \<and> (\<exists>c'. execute_opcode 0xAA \<lparr>ram = (replicate 0x10000 0)[0x8001 := 0x80]\<rparr>
              \<lparr>A = 0, X = 0x7F, Y = 0, SP = 0xFD, PC = 0x8001, status = 0x26\<rparr> = Some (c', [])
          \<and> X c' = 0 \<and> bit (status c') 1 \<and> \<not> bit (status c') 7
          \<and> status c' AND 0x7D = 0x24)
   \<and> (\<exists>c'. execute_opcode 0xE8 \<lparr>ram = (replicate 0x10000 0)[0x8001 := 0x80]\<rparr>
              \<lparr>A = 0, X = 0x7F, Y = 0, SP = 0xFD, PC = 0x8001, status = 0x26\<rparr> = Some (c', [])
          \<and> X c' = 0x80 \<and> \<not> bit (status c') 1 \<and> bit (status c') 7
          \<and> status c' AND 0x7D = 0x24)"
proof -
  have h: "read \<lparr>ram = (replicate 0x10000 0)[0x8001 := 0x80]\<rparr>
             (PC \<lparr>A = 0, X = 0x7F, Y = 0, SP = 0xFD, PC = 0x8001, status = 0x26\<rparr>) = Some 0x80"
    by (simp add: read_def)
  show ?thesis
    using h zero_negative_flags_track_value [OF h, of 0]
    by simp
qed

section \<open>Reset\<close>

text \<open>
  Claim C2 says that after \<open>reset()\<close> the program counter equals the value stored at
  the reset vector. It does not: in a memory whose reset vector at \<open>0xFFFC\<close> holds
  \<open>0xC000\<close>, \<open>reset\<close> still leaves \<open>PC = 0x8000\<close>.
\<close>

theorem reset_pc_is_not_the_vector:
  "spec_vector_at \<lparr>ram = (replicate 0x10000 0)[0xFFFC := 0x00, 0xFFFD := 0xC0]\<rparr> 0xFFFC = Some 0xC000
   \<and> PC (reset \<lparr>A = 0x11, X = 0x22, Y = 0x33, SP = 0x44, PC = 0x5566, status = 0x77\<rparr>) = 0x8000
   \<and> Some (PC (reset \<lparr>A = 0x11, X = 0x22, Y = 0x33, SP = 0x44, PC = 0x5566, status = 0x77\<rparr>))
      \<noteq> spec_vector_at \<lparr>ram = (replicate 0x10000 0)[0xFFFC := 0x00, 0xFFFD := 0xC0]\<rparr> 0xFFFC"
  by (simp add: spec_vector_at_def read_def reset_def)

text \<open>
  Claim C2, as the code has it. After \<open>reset()\<close>, whatever the registers held,
  \<open>A = X = Y = 0\<close>, \<open>SP = 0xFD\<close>, \<open>status = 0x24\<close> and \<open>PC\<close> is the constant
  \<open>0x8000\<close>; \<open>reset\<close> is not given the memory.
\<close>

theorem reset_registers:
  "reset c = \<lparr>A = 0, X = 0, Y = 0, SP = 0xFD, PC = 0x8000, status = 0x24\<rparr>"
  by (simp add: reset_def)

section \<open>Memory\<close>

text \<open>
  Claim C4. The constructor's array has \<open>0x10000\<close> bytes. On an array of that size
  every 16-bit address is an index inside it, so \<open>read\<close> returns a byte and
  \<open>write\<close> succeeds, and \<open>write\<close> leaves the size as it was: the array covers the
  address space after any number of writes. The program's one writer, the loop of
  \<open>load_rom\<close>, therefore succeeds on a buffer of any length, from any index.
\<close>

theorem memory_access_in_bounds:
  "length (ram Memory_new) = 0x10000
   \<and> (length (ram m) = 0x10000 \<longrightarrow>
        unat a < length (ram m)
        \<and> (\<exists>b. read m a = Some b)
        \<and> (\<exists>m'. write_mem m a v = Some m' \<and> length (ram m') = 0x10000)
        \<and> (\<exists>m'. load_rom_loop i buffer m = Some m' \<and> length (ram m') = 0x10000))"
  by (simp add: Memory_new_def read_in_range write_mem_in_range unat_u16_bound
      load_rom_loop_total)

text \<open>
  The theorem at the fresh memory, the last address \<open>0xFFFF\<close> and the byte \<open>0xAB\<close>,
  and at a two-byte buffer loaded from index \<open>0x7FFF\<close>, whose second byte goes to
  the address \<open>0x10000\<close> cut to sixteen bits.
\<close>

theorem memory_access_in_bounds_witness:
  "length (ram Memory_new) = 0x10000
   \<and> unat (0xFFFF :: uint16_t) < length (ram Memory_new)
   \<and> (\<exists>b. read Memory_new 0xFFFF = Some b)
   \<and> (\<exists>m'. write_mem Memory_new 0xFFFF 0xAB = Some m' \<and> length (ram m') = 0x10000)
   \<and> (\<exists>m'. load_rom_loop 0x7FFF [0xA9, 0x80] Memory_new = Some m' \<and> length (ram m') = 0x10000)"
  using memory_access_in_bounds [of Memory_new "0xFFFF" "0xAB" "0x7FFF" "[0xA9, 0x80]"] by blast

text \<open>
  Claim C10. On the 64KB array, \<open>read(a)\<close> after \<open>write(a, v)\<close> returns \<open>v\<close>, and
  every other address reads as it did before the write.
\<close>

theorem memory_round_trip:
  assumes "length (ram m) = 0x10000"
  shows "\<exists>m'. write_mem m a v = Some m' \<and> read m' a = Some v
              \<and> (\<forall>b. b \<noteq> a \<longrightarrow> read m' b = read m b)"
proof -
  obtain m' where w: "write_mem m a v = Some m'"
    using assms by (simp add: write_mem_in_range)
  have "read m' b = (if b = a then Some v else read m b)" for b
    using assms w by (rule read_after_write_mem)
  with w show ?thesis by simp
qed

text \<open>
  The theorem at the fresh memory: after \<open>write(0x1234, 0x56)\<close> the byte is read back
  and the neighbour \<open>0x1235\<close> still holds zero.
\<close>

theorem memory_round_trip_witness:
  "length (ram Memory_new) = 0x10000
   \<and> (\<exists>m'. write_mem Memory_new 0x1234 0x56 = Some m' \<and> read m' 0x1234 = Some 0x56
            \<and> read m' 0x1235 = read Memory_new 0x1235 \<and> read m' 0x1235 = Some 0)"
proof -
  have h: "length (ram Memory_new) = 0x10000"
    by (simp add: Memory_new_def)
  have z: "read Memory_new 0x1235 = Some 0"
    by (simp add: read_def Memory_new_def)
  obtain m' where "write_mem Memory_new 0x1234 0x56 = Some m'" "read m' 0x1234 = Some 0x56"
    "\<forall>b. b \<noteq> 0x1234 \<longrightarrow> read m' b = read Memory_new b"
    using memory_round_trip [OF h, of "0x1234" "0x56"] by blast
  moreover from this have "read m' 0x1235 = read Memory_new 0x1235"
    by simp
  ultimately show ?thesis
    using h z by simp
qed

text \<open>
  Claim C5 says that addresses of the RAM window with equal low eleven bits observe one
  cell. They do not: after \<open>write(0x0000, 0x42)\<close> on the fresh memory, \<open>0x0000\<close>
  reads \<open>0x42\<close> and its alias \<open>0x0800\<close> still reads \<open>0x00\<close>.
\<close>

theorem ram_is_not_mirrored:
  "write_mem Memory_new 0x0000 0x42 = Some \<lparr>ram = (replicate 0x10000 0)[0 := 0x42]\<rparr>
   \<and> read \<lparr>ram = (replicate 0x10000 0)[0 := 0x42]\<rparr> 0x0000 = Some 0x42
   \<and> read \<lparr>ram = (replicate 0x10000 0)[0 := 0x42]\<rparr> 0x0800 = Some 0x00
   \<and> (0x0800 :: uint16_t) AND 0x07FF = 0x0000 AND 0x07FF
   \<and> (0x0800 :: uint16_t) \<le> 0x1FFF"
  by (simp add: write_mem_def read_def Memory_new_def)

text \<open>
  Claim C5, as the code has it. \<open>read\<close> and \<open>write\<close> index the array with the
  address as given; no mask is applied. For \<open>a\<close> and \<open>a'\<close> in the window
  \<open>0x0000\<close>-\<open>0x1FFF\<close> with equal low eleven bits, a read of \<open>a'\<close> after
  \<open>write(a, v)\<close> returns \<open>v\<close> when \<open>a' = a\<close> and otherwise the byte \<open>a'\<close> held
  before the write.
\<close>

theorem mirror_alias_is_a_separate_cell:
  assumes "length (ram m) = 0x10000"
    and "a \<le> 0x1FFF" and "a' \<le> 0x1FFF" and "a' AND 0x07FF = a AND 0x07FF"
  shows "\<exists>m'. write_mem m a v = Some m'
              \<and> read m' a' = (if a' = a then Some v else read m a')"
proof -
  obtain m' where w: "write_mem m a v = Some m'"
    using assms(1) by (simp add: write_mem_in_range)
  from assms(1) w have "read m' a' = (if a' = a then Some v else read m a')"
    by (rule read_after_write_mem)
  with w show ?thesis by simp
qed

text \<open>
  The theorem at the fresh memory with \<open>a = 0x0000\<close> and its alias
  \<open>a' = 0x1800\<close>.
\<close>

theorem mirror_alias_is_a_separate_cell_witness:
  "length (ram Memory_new) = 0x10000
   \<and> (0x0000 :: uint16_t) \<le> 0x1FFF \<and> (0x1800 :: uint16_t) \<le> 0x1FFF
   \<and> (0x1800 :: uint16_t) AND 0x07FF = 0x0000 AND 0x07FF
   \<and> (\<exists>m'. write_mem Memory_new 0x0000 0x42 = Some m' \<and> read m' 0x1800 = Some 0x00)"
proof -
  have h: "length (ram Memory_new) = 0x10000"
    by (simp add: Memory_new_def)
  have w: "(0x0000 :: uint16_t) \<le> 0x1FFF" "(0x1800 :: uint16_t) \<le> 0x1FFF"
    "(0x1800 :: uint16_t) AND 0x07FF = 0x0000 AND 0x07FF"
    by simp_all
  have z: "read Memory_new 0x1800 = Some 0"
    by (simp add: read_def Memory_new_def)
  show ?thesis
    using mirror_alias_is_a_separate_cell [OF h w, of "0x42"] h z by simp
qed

section \<open>Instructions\<close>

text \<open>
  Claim C9. INX (\<open>0xE8\<close>) makes \<open>X\<close> the old \<open>X\<close> plus one modulo 256. From
  \<open>X = 0xFF\<close> the result is \<open>0x00\<close> with the zero flag set and the negative flag
  clear. The dispatch leaves \<open>A\<close>, \<open>Y\<close>, \<open>SP\<close>, \<open>PC\<close> and the status bits other
  than zero and negative as they were; the whole step, which fetches the opcode first,
  moves \<open>PC\<close> past that byte and changes no memory cell.
\<close>

theorem inx_increments_x_mod_256:
  "(\<exists>c'. execute_opcode 0xE8 mem c = Some (c', [])
         \<and> X c' = X c + 1 \<and> unat (X c') = (unat (X c) + 1) mod 256
         \<and> A c' = A c \<and> Y c' = Y c \<and> SP c' = SP c \<and> PC c' = PC c
         \<and> status c' AND 0x7D = status c AND 0x7D
         \<and> (X c = 0xFF \<longrightarrow> X c' = 0 \<and> bit (status c') 1 \<and> \<not> bit (status c') 7))
   \<and> (read (memory s) (PC (cpu s)) = Some 0xE8 \<longrightarrow>
         (\<exists>s'. emulate_cycle s = Some s'
               \<and> X (cpu s') = X (cpu s) + 1 \<and> PC (cpu s') = PC (cpu s) + 1
               \<and> A (cpu s') = A (cpu s) \<and> Y (cpu s') = Y (cpu s) \<and> SP (cpu s') = SP (cpu s)
               \<and> memory s' = memory s \<and> running s' = running s \<and> cerr s' = cerr s))"
proof (intro conjI impI)
  let ?c' = "update_zero_and_negative_flags (X c + 1) (c\<lparr>X := X c + 1\<rparr>)"
  have run: "execute_opcode 0xE8 mem c = Some (?c', [])"
    by (simp add: execute_opcode_def)
  have wrap: "unat (X c + 1) = (unat (X c) + 1) mod 256"
    by (simp add: unat_word_ariths)
  have top: "X c = 0xFF \<longrightarrow> X ?c' = 0 \<and> bit (status ?c') 1 \<and> \<not> bit (status ?c') 7"
    by (simp add: flags_keep_registers flags_zero_bit_Suc flags_negative_bit)
  show "\<exists>c'. execute_opcode 0xE8 mem c = Some (c', [])
         \<and> X c' = X c + 1 \<and> unat (X c') = (unat (X c) + 1) mod 256
         \<and> A c' = A c \<and> Y c' = Y c \<and> SP c' = SP c \<and> PC c' = PC c
         \<and> status c' AND 0x7D = status c AND 0x7D
         \<and> (X c = 0xFF \<longrightarrow> X c' = 0 \<and> bit (status c') 1 \<and> \<not> bit (status c') 7)"
    using run wrap top
    by (intro exI [of _ ?c']) (simp add: flags_keep_registers flags_other_bits)
next
  assume op: "read (memory s) (PC (cpu s)) = Some 0xE8"
  then show "\<exists>s'. emulate_cycle s = Some s'
               \<and> X (cpu s') = X (cpu s) + 1 \<and> PC (cpu s') = PC (cpu s) + 1
               \<and> A (cpu s') = A (cpu s) \<and> Y (cpu s') = Y (cpu s) \<and> SP (cpu s') = SP (cpu s)
               \<and> memory s' = memory s \<and> running s' = running s \<and> cerr s' = cerr s"
    by (simp add: emulate_cycle_def execute_opcode_def flags_keep_registers)
qed

text \<open>
  The theorem at \<open>X = 0xFF\<close>, for the dispatch alone and for a step of an emulator
  with \<open>0xE8\<close> at its \<open>PC\<close>.
\<close>

theorem inx_increments_x_mod_256_witness:
  "(\<exists>c'. execute_opcode 0xE8 Memory_new
            \<lparr>A = 0x11, X = 0xFF, Y = 0x33, SP = 0xFD, PC = 0x8001, status = 0xA4\<rparr> = Some (c', [])
         \<and> X c' = 0 \<and> unat (X c') = 0 \<and> bit (status c') 1 \<and> \<not> bit (status c') 7
         \<and> A c' = 0x11 \<and> Y c' = 0x33 \<and> SP c' = 0xFD \<and> PC c' = 0x8001)
   \<and> read (memory \<lparr>cpu = \<lparr>A = 0x11, X = 0xFF, Y = 0x33, SP = 0xFD, PC = 0x8000, status = 0xA4\<rparr>,
                    memory = \<lparr>ram = (replicate 0x10000 0)[0x8000 := 0xE8]\<rparr>,
                    running = True, cerr = []\<rparr>) 0x8000 = Some 0xE8
   \<and> (\<exists>s'. emulate_cycle \<lparr>cpu = \<lparr>A = 0x11, X = 0xFF, Y = 0x33, SP = 0xFD, PC = 0x8000, status = 0xA4\<rparr>,
                            memory = \<lparr>ram = (replicate 0x10000 0)[0x8000 := 0xE8]\<rparr>,
                            running = True, cerr = []\<rparr> = Some s'
          \<and> X (cpu s') = 0 \<and> PC (cpu s') = 0x8001
          \<and> memory s' = \<lparr>ram = (replicate 0x10000 0)[0x8000 := 0xE8]\<rparr>)"
proof -
  let ?c = "\<lparr>A = 0x11, X = 0xFF, Y = 0x33, SP = 0xFD, PC = 0x8001, status = 0xA4\<rparr>"
  let ?s = "\<lparr>cpu = \<lparr>A = 0x11, X = 0xFF, Y = 0x33, SP = 0xFD, PC = 0x8000, status = 0xA4\<rparr>,
             memory = \<lparr>ram = (replicate 0x10000 0)[0x8000 := 0xE8]\<rparr>,
             running = True, cerr = []\<rparr>"
  have h: "read (memory ?s) (PC (cpu ?s)) = Some 0xE8"
    by (simp add: read_def)
  have wrap: "(256 :: uint8_t) = 0"
    by simp
  from inx_increments_x_mod_256 [of Memory_new ?c ?s] h show ?thesis
    by (simp add: wrap) blast
qed


text \<open>
  Claim C3 says that a step on an unimplemented opcode consumes exactly two cycles. The
  program counts no cycles; its unit of emulated time is one call of
  \<open>emulate_cycle\<close>, one per iteration of \<open>run\<close>. With the ROM \<open>02 E8\<close> loaded, one
  call is all the unknown opcode \<open>0x02\<close> takes: afterwards \<open>PC\<close> is past it, the
  diagnostic is out, and nothing else in the emulator has changed. The second call
  already executes the INX that follows.
\<close>

theorem unknown_opcode_takes_one_emulate_cycle:
  "(startup \<lparr>A = 0x11, X = 0x22, Y = 0x33, SP = 0x44, PC = 0x5566, status = 0x77\<rparr> [0x02, 0xE8]
      \<bind> emulate_cycles 1)
     = Some \<lparr>cpu = \<lparr>A = 0, X = 0, Y = 0, SP = 0xFD, PC = 0x8001, status = 0x24\<rparr>,
             memory = \<lparr>ram = (replicate 0x10000 0)[0x8000 := 0x02, 0x8001 := 0xE8]\<rparr>,
             running = True, cerr = [''Unknown opcode: 2'']\<rparr>
   \<and> (startup \<lparr>A = 0x11, X = 0x22, Y = 0x33, SP = 0x44, PC = 0x5566, status = 0x77\<rparr> [0x02, 0xE8]
      \<bind> emulate_cycles 2)
     = Some \<lparr>cpu = \<lparr>A = 0, X = 1, Y = 0, SP = 0xFD, PC = 0x8002, status = 0x24\<rparr>,
             memory = \<lparr>ram = (replicate 0x10000 0)[0x8000 := 0x02, 0x8001 := 0xE8]\<rparr>,
             running = True, cerr = [''Unknown opcode: 2'']\<rparr>"
  by (simp add: startup_defs run_defs to_hex_def hex_digit_def)

text \<open>
  Claim C3, as the code has it. When the opcode at \<open>PC\<close> is none of \<open>0xA9\<close>,
  \<open>0xAA\<close>, \<open>0xE8\<close>, one call of \<open>emulate_cycle\<close> returns normally, appends the line
  \<open>Unknown opcode: \<close> followed by the opcode in hexadecimal to \<open>std::cerr\<close>, and
  advances \<open>PC\<close> by one; \<open>A\<close>, \<open>X\<close>, \<open>Y\<close>, \<open>SP\<close>, the status register, all of
  memory and the \<open>running\<close> flag are unchanged. No cycle count is kept.
\<close>

theorem unknown_opcode_is_a_noop:
  assumes "read (memory s) (PC (cpu s)) = Some opcode"
    and "opcode \<noteq> 0xA9" and "opcode \<noteq> 0xAA" and "opcode \<noteq> 0xE8"
  shows "execute_opcode opcode mem c = Some (c, [''Unknown opcode: '' @ to_hex (unat opcode)])
    \<and> emulate_cycle s =
        Some (s\<lparr>cpu := (cpu s)\<lparr>PC := PC (cpu s) + 1\<rparr>,
                cerr := cerr s @ [''Unknown opcode: '' @ to_hex (unat opcode)]\<rparr>)
    \<and> (\<exists>s'. emulate_cycle s = Some s'
           \<and> A (cpu s') = A (cpu s) \<and> X (cpu s') = X (cpu s) \<and> Y (cpu s') = Y (cpu s)
           \<and> SP (cpu s') = SP (cpu s) \<and> status (cpu s') = status (cpu s)
           \<and> PC (cpu s') = PC (cpu s) + 1
           \<and> memory s' = memory s \<and> running s' = running s
           \<and> cerr s' = cerr s @ [''Unknown opcode: '' @ to_hex (unat opcode)])"
proof -
  have dispatch: "execute_opcode opcode m r = Some (r, [''Unknown opcode: '' @ to_hex (unat opcode)])"
    for m r
    using assms(2-4) by (simp add: execute_opcode_def)
  have step: "emulate_cycle s =
        Some (s\<lparr>cpu := (cpu s)\<lparr>PC := PC (cpu s) + 1\<rparr>,
                cerr := cerr s @ [''Unknown opcode: '' @ to_hex (unat opcode)]\<rparr>)"
    using assms(1) by (simp add: emulate_cycle_def dispatch)
  from dispatch step show ?thesis
    by simp
qed

text \<open>
  The theorem at the opcode \<open>0xFF\<close> stored at the last address \<open>0xFFFF\<close>, where
  \<open>PC\<close> wraps to \<open>0x0000\<close>.
\<close>

theorem unknown_opcode_is_a_noop_witness:
  "read (memory \<lparr>cpu = \<lparr>A = 0x11, X = 0x22, Y = 0x33, SP = 0xFD, PC = 0xFFFF, status = 0xA5\<rparr>,
                  memory = \<lparr>ram = (replicate 0x10000 0)[0xFFFF := 0xFF]\<rparr>,
                  running = True, cerr = []\<rparr>) 0xFFFF = Some 0xFF
   \<and> emulate_cycle \<lparr>cpu = \<lparr>A = 0x11, X = 0x22, Y = 0x33, SP = 0xFD, PC = 0xFFFF, status = 0xA5\<rparr>,
                     memory = \<lparr>ram = (replicate 0x10000 0)[0xFFFF := 0xFF]\<rparr>,
                     running = True, cerr = []\<rparr>
     = Some \<lparr>cpu = \<lparr>A = 0x11, X = 0x22, Y = 0x33, SP = 0xFD, PC = 0x0000, status = 0xA5\<rparr>,
             memory = \<lparr>ram = (replicate 0x10000 0)[0xFFFF := 0xFF]\<rparr>,
             running = True, cerr = [''Unknown opcode: ff'']\<rparr>"
proof -
  let ?s = "\<lparr>cpu = \<lparr>A = 0x11, X = 0x22, Y = 0x33, SP = 0xFD, PC = 0xFFFF, status = 0xA5\<rparr>,
             memory = \<lparr>ram = (replicate 0x10000 0)[0xFFFF := 0xFF]\<rparr>,
             running = True, cerr = []\<rparr>"
  have h: "read (memory ?s) (PC (cpu ?s)) = Some 0xFF"
    by (simp add: read_def)
  have n: "(0xFF :: uint8_t) \<noteq> 0xA9" "(0xFF :: uint8_t) \<noteq> 0xAA" "(0xFF :: uint8_t) \<noteq> 0xE8"
    by simp_all
  have wrap: "(65536 :: uint16_t) = 0"
    by simp
  from unknown_opcode_is_a_noop [OF h n, of Memory_new "cpu ?s"] h show ?thesis
    by (simp add: to_hex_def hex_digit_def wrap)
qed

section \<open>The step\<close>

text \<open>
  Claim C6 says that the per-instruction entry point returns the number of cycles the
  instruction consumed. \<open>emulate_cycle\<close> is declared \<open>void\<close>: all it yields is the
  updated emulator. With the ROM \<open>A9 80\<close> loaded, a call executes LDA immediate and
  leaves exactly the emulator below, in which \<open>A\<close>, \<open>PC\<close> and the status register
  are new and nothing records a cycle count.
\<close>

theorem emulate_cycle_yields_only_the_emulator:
  "(startup \<lparr>A = 0x11, X = 0x22, Y = 0x33, SP = 0x44, PC = 0x5566, status = 0x77\<rparr> [0xA9, 0x80]
      \<bind> emulate_cycle)
     = Some \<lparr>cpu = \<lparr>A = 0x80, X = 0, Y = 0, SP = 0xFD, PC = 0x8002, status = 0xA4\<rparr>,
             memory = \<lparr>ram = (replicate 0x10000 0)[0x8000 := 0xA9, 0x8001 := 0x80]\<rparr>,
             running = True, cerr = []\<rparr>"
  by (simp add: startup_defs run_defs to_hex_def hex_digit_def)

text \<open>
  Claim C6, as the code has it. On the 64KB memory every call of \<open>emulate_cycle\<close>
  returns normally and executes exactly one instruction: it fetches one opcode at
  \<open>PC\<close>, dispatches it once through \<open>execute_opcode\<close>, and leaves \<open>PC\<close> behind
  that instruction (two bytes on for LDA immediate, one byte on otherwise). Its result is
  the updated emulator and nothing else; no cycle count is computed or returned.
\<close>

theorem emulate_cycle_executes_one_instruction:
  assumes "length (ram (memory s)) = 0x10000"
  shows "\<exists>opcode c' out.
           read (memory s) (PC (cpu s)) = Some opcode
           \<and> execute_opcode opcode (memory s) ((cpu s)\<lparr>PC := PC (cpu s) + 1\<rparr>) = Some (c', out)
           \<and> emulate_cycle s = Some (s\<lparr>cpu := c', cerr := cerr s @ out\<rparr>)
           \<and> PC c' = PC (cpu s) + (if opcode = 0xA9 then 2 else 1)"
proof -
  obtain opcode c' out where
    fetch: "read (memory s) (PC (cpu s)) = Some opcode"
    and dispatch:
      "execute_opcode opcode (memory s) ((cpu s)\<lparr>PC := PC (cpu s) + 1\<rparr>) = Some (c', out)"
    and step: "emulate_cycle s = Some (s\<lparr>cpu := c', cerr := cerr s @ out\<rparr>)"
    using emulate_cycle_step [OF assms] by blast
  have "PC c' = PC (cpu s) + (if opcode = 0xA9 then 2 else 1)"
    using execute_opcode_keeps(5) [OF dispatch] by simp
  with fetch dispatch step show ?thesis
    by blast
qed

text \<open>
  The theorem at an emulator with LDA immediate at \<open>PC = 0x8000\<close>.
\<close>

theorem emulate_cycle_executes_one_instruction_witness:
  "length (ram (memory \<lparr>cpu = \<lparr>A = 0, X = 0, Y = 0, SP = 0xFD, PC = 0x8000, status = 0x24\<rparr>,
                        memory = \<lparr>ram = (replicate 0x10000 0)[0x8000 := 0xA9, 0x8001 := 0x80]\<rparr>,
                        running = True, cerr = []\<rparr>)) = 0x10000
   \<and> (\<exists>c'. emulate_cycle \<lparr>cpu = \<lparr>A = 0, X = 0, Y = 0, SP = 0xFD, PC = 0x8000, status = 0x24\<rparr>,
                        memory = \<lparr>ram = (replicate 0x10000 0)[0x8000 := 0xA9, 0x8001 := 0x80]\<rparr>,
                        running = True, cerr = []\<rparr>
            = Some \<lparr>cpu = c',
                    memory = \<lparr>ram = (replicate 0x10000 0)[0x8000 := 0xA9, 0x8001 := 0x80]\<rparr>,
                    running = True, cerr = []\<rparr>
          \<and> PC c' = 0x8002)"
proof -
  let ?s = "\<lparr>cpu = \<lparr>A = 0, X = 0, Y = 0, SP = 0xFD, PC = 0x8000, status = 0x24\<rparr>,
             memory = \<lparr>ram = (replicate 0x10000 0)[0x8000 := 0xA9, 0x8001 := 0x80]\<rparr>,
             running = True, cerr = []\<rparr>"
  have h: "length (ram (memory ?s)) = 0x10000"
    by simp
  have f: "read (memory ?s) (PC (cpu ?s)) = Some 0xA9"
    by (simp add: read_def)
  from emulate_cycle_executes_one_instruction [OF h] obtain opcode c' out where
    "read (memory ?s) (PC (cpu ?s)) = Some opcode"
    "execute_opcode opcode (memory ?s) ((cpu ?s)\<lparr>PC := PC (cpu ?s) + 1\<rparr>) = Some (c', out)"
    "emulate_cycle ?s = Some (?s\<lparr>cpu := c', cerr := cerr ?s @ out\<rparr>)"
    "PC c' = PC (cpu ?s) + (if opcode = 0xA9 then 2 else 1)"
    by blast
  with f have "emulate_cycle ?s = Some (?s\<lparr>cpu := c', cerr := []\<rparr>) \<and> PC c' = 0x8002"
    by (auto simp: execute_opcode_def split: option.splits)
  with h show ?thesis
    by simp
qed

text \<open>
  Claim C8. Status bit 5 is set by \<open>reset()\<close>. In every emulator state reached from
  a reset CPU by any number of steps it is still set, and on the 64KB memory every
  number of steps does reach a state. No dispatch clears the bit: whatever the opcode,
  the registers and the memory, \<open>execute_opcode\<close> leaves status bit 5 as it found
  it.
\<close>

theorem status_bit5_always_set:
  assumes "cpu s = reset c"
  shows "status (cpu s) AND 0x20 = 0x20
     \<and> (emulate_cycles n s = Some s' \<longrightarrow> status (cpu s') AND 0x20 = 0x20)
     \<and> (length (ram (memory s)) = 0x10000 \<longrightarrow>
          (\<exists>t. emulate_cycles n s = Some t \<and> status (cpu t) AND 0x20 = 0x20))
     \<and> (execute_opcode opcode mem r = Some (r', out) \<longrightarrow>
          status r' AND 0x20 = status r AND 0x20)"
proof (intro conjI impI)
  show start: "status (cpu s) AND 0x20 = 0x20"
    by (simp add: assms reset_def)
  show later: "status (cpu s') AND 0x20 = 0x20" if "emulate_cycles n s = Some s'" for s'
    using emulate_cycles_keeps [OF that] start by simp
  show "\<exists>t. emulate_cycles n s = Some t \<and> status (cpu t) AND 0x20 = 0x20"
    if wf: "length (ram (memory s)) = 0x10000"
  proof -
    obtain t where "emulate_cycles n s = Some t"
      using emulate_cycles_total [OF wf] by blast
    with later show ?thesis by blast
  qed
  show "status r' AND 0x20 = status r AND 0x20"
    if "execute_opcode opcode mem r = Some (r', out)"
    using that by (rule execute_opcode_keeps(3))
qed

text \<open>
  The theorem at four steps (LDA immediate, TAX, INX, an unknown opcode) from a reset
  CPU, and at a dispatch of INX.
\<close>

theorem status_bit5_always_set_witness:
  "cpu \<lparr>cpu = reset \<lparr>A = 0x11, X = 0x22, Y = 0x33, SP = 0x44, PC = 0x5566, status = 0x00\<rparr>,
        memory = \<lparr>ram = (replicate 0x10000 0)[0x8000 := 0xA9, 0x8001 := 0xFF, 0x8002 := 0xAA,
                                               0x8003 := 0xE8, 0x8004 := 0x02]\<rparr>,
        running = True, cerr = []\<rparr>
     = reset \<lparr>A = 0x11, X = 0x22, Y = 0x33, SP = 0x44, PC = 0x5566, status = 0x00\<rparr>
   \<and> emulate_cycles 4
        \<lparr>cpu = reset \<lparr>A = 0x11, X = 0x22, Y = 0x33, SP = 0x44, PC = 0x5566, status = 0x00\<rparr>,
         memory = \<lparr>ram = (replicate 0x10000 0)[0x8000 := 0xA9, 0x8001 := 0xFF, 0x8002 := 0xAA,
                                                0x8003 := 0xE8, 0x8004 := 0x02]\<rparr>,
         running = True, cerr = []\<rparr>
     = Some \<lparr>cpu = \<lparr>A = 0xFF, X = 0x00, Y = 0, SP = 0xFD, PC = 0x8005, status = 0x26\<rparr>,
             memory = \<lparr>ram = (replicate 0x10000 0)[0x8000 := 0xA9, 0x8001 := 0xFF, 0x8002 := 0xAA,
                                                    0x8003 := 0xE8, 0x8004 := 0x02]\<rparr>,
             running = True, cerr = [''Unknown opcode: 2'']\<rparr>
   \<and> status (cpu \<lparr>cpu = \<lparr>A = 0xFF, X = 0x00, Y = 0, SP = 0xFD, PC = 0x8005, status = 0x26\<rparr>,
             memory = \<lparr>ram = (replicate 0x10000 0)[0x8000 := 0xA9, 0x8001 := 0xFF, 0x8002 := 0xAA,
                                                    0x8003 := 0xE8, 0x8004 := 0x02]\<rparr>,
             running = True, cerr = [''Unknown opcode: 2'']\<rparr>) AND 0x20 = 0x20
   \<and> execute_opcode 0xE8 Memory_new \<lparr>A = 0, X = 0xFF, Y = 0, SP = 0xFD, PC = 0x8000, status = 0x24\<rparr>
     = Some (\<lparr>A = 0, X = 0, Y = 0, SP = 0xFD, PC = 0x8000, status = 0x26\<rparr>, [])
   \<and> (0x26 :: uint8_t) AND 0x20 = 0x24 AND 0x20"
proof -
  let ?s = "\<lparr>cpu = reset \<lparr>A = 0x11, X = 0x22, Y = 0x33, SP = 0x44, PC = 0x5566, status = 0x00\<rparr>,
        memory = \<lparr>ram = (replicate 0x10000 0)[0x8000 := 0xA9, 0x8001 := 0xFF, 0x8002 := 0xAA,
                                               0x8003 := 0xE8, 0x8004 := 0x02]\<rparr>,
        running = True, cerr = []\<rparr>"
  let ?s' = "\<lparr>cpu = \<lparr>A = 0xFF, X = 0x00, Y = 0, SP = 0xFD, PC = 0x8005, status = 0x26\<rparr>,
             memory = \<lparr>ram = (replicate 0x10000 0)[0x8000 := 0xA9, 0x8001 := 0xFF, 0x8002 := 0xAA,
                                                    0x8003 := 0xE8, 0x8004 := 0x02]\<rparr>,
             running = True, cerr = [''Unknown opcode: 2'']\<rparr>"
  let ?r = "\<lparr>A = 0, X = 0xFF, Y = 0, SP = 0xFD, PC = 0x8000, status = 0x24\<rparr>"
  let ?r' = "\<lparr>A = 0, X = 0, Y = 0, SP = 0xFD, PC = 0x8000, status = 0x26\<rparr>"
  have h1: "cpu ?s = reset \<lparr>A = 0x11, X = 0x22, Y = 0x33, SP = 0x44, PC = 0x5566, status = 0x00\<rparr>"
    by simp
  have h2: "emulate_cycles 4 ?s = Some ?s'"
    by (simp add: run_defs to_hex_def hex_digit_def)
  have h3: "execute_opcode 0xE8 Memory_new ?r = Some (?r', [])"
    by (simp add: execute_opcode_def update_zero_and_negative_flags_def)
  from status_bit5_always_set [OF h1, of 4 ?s' "0xE8" Memory_new ?r ?r' "[]"] h1 h2 h3
  show ?thesis
    by simp
qed

end
